theory Spec2Isabelle
  imports Main
begin

section \<open>Data model of application.go\<close>

text \<open>
  Go's \<open>error\<close> values that the modelled functions return. \<open>ErrNoApplicationContainer\<close> is
  declared in application.go; the other sentinels are declared elsewhere in the package.
  Any failure of the HTTP transport is an opaque \<open>TransportError\<close>.
\<close>

datatype error =
    ErrNoApplicationContainer
  | ErrDoesNotExist
  | ErrInvalidArgument
  | ErrTimeoutError
  | TransportError string

text \<open>
  A Go slice is \<open>nil\<close> or present: \<open>None\<close> is the nil slice, \<open>Some []\<close> a present, empty
  one. \<open>slice_len\<close> is Go's \<open>len\<close> (0 on nil) and \<open>slice_range\<close> the elements a
  \<open>for ... range\<close> visits (none on nil).
\<close>

type_synonym 'a slice = "'a list option"

definition slice_len :: "'a slice \<Rightarrow> nat" where
  "slice_len s = (case s of None \<Rightarrow> 0 | Some xs \<Rightarrow> length xs)"

definition slice_range :: "'a slice \<Rightarrow> 'a list" where
  "slice_range s = (case s of None \<Rightarrow> [] | Some xs \<Rightarrow> xs)"

text \<open>
  The fields of \<open>HealthCheck\<close> that application.go writes (CheckHTTP, CheckTCP). The
  readiness code only tests the slice of checks for nil and for its length.
\<close>

record HealthCheck =
  Protocol :: string
  Path :: string
  PortIndex :: int
  IntervalSeconds :: int

text \<open>
  Modelled from the spec: the declarations of \<open>Task\<close> and \<open>HealthCheckResult\<close> are not in
  application.go. ApplicationOK reads \<open>task.HealthCheckResult\<close>, a slice of pointers that
  may be nil as a whole and whose slots may be nil (\<open>None\<close> here), and \<open>check.Alive\<close>.
  The elements of \<open>Tasks\<close> are task pointers the loop dereferences without a test; they are
  modelled by the tasks they point to.
\<close>

record HealthCheckResult =
  Alive :: bool

record Task =
  HealthCheckResult :: "HealthCheckResult option slice"

text \<open>
  The fields of \<open>Application\<close> that the readiness and wait code reads. \<open>Instances\<close> and
  \<open>TasksRunning\<close> are Go \<open>int\<close>s that are only compared, never computed with.
\<close>

record Application =
  ID :: string
  HealthChecks :: "HealthCheck slice"
  Instances :: int
  Tasks :: "Task slice"
  TasksRunning :: int

section \<open>Methods of Application\<close>

definition AllTaskRunning :: "Application \<Rightarrow> bool" where
  "AllTaskRunning r =
     (if Instances r = 0 then True
      else if Tasks r = None then False
      else if TasksRunning r = Instances r then True
      else False)"

definition HasHealthChecks :: "Application \<Rightarrow> bool" where
  "HasHealthChecks r =
     (if HealthChecks r \<noteq> None \<and> slice_len (HealthChecks r) > 0 then True else False)"

section \<open>The client and the remote catalog\<close>

text \<open>
  The HTTP transport (\<open>apiGet\<close>) is outside application.go. It is a parameter of the
  client: an oracle that, asked at an instant of the clock, gives the decoded answer or an
  error, and the time the round trip took. Instants and durations are nanoseconds, as in
  \<open>time.Duration\<close>. The request path of \<open>Application\<close> goes through \<open>trimRootPath\<close>, also
  outside this file; the oracle is indexed by the name the caller passed. A fetch without
  error hands back the decoded application: the pointer that ApplicationOK and the poll
  loop dereference without a test is modelled by the application it points to.
\<close>

record Config =
  DefaultDeploymentTimeout :: int

text \<open>The deployment handle a mutating call hands back (declared outside this file).\<close>

record DeploymentID =
  DeploymentID :: string
  Version :: string

record marathonClient =
  config :: Config
  apiGet_apps :: "int \<Rightarrow> (error + Application list) \<times> int"
  apiGet_app :: "string \<Rightarrow> int \<Rightarrow> (error + Application) \<times> int"
  apiPost_apps :: "Application \<Rightarrow> int \<Rightarrow> (error + Application) \<times> int"
  apiPut_app :: "Application \<Rightarrow> int \<Rightarrow> (error + DeploymentID) \<times> int"

text \<open>
  The world a call runs in: the clock and the log of what the call did to the outside
  (requests sent, sleeps taken), oldest first.
\<close>

datatype event =
    Listed int
  | Fetched string int
  | Posted string int
  | Put string int
  | Slept int int

record world =
  clock :: int
  trace :: "event list"

definition Millisecond :: int where
  "Millisecond = 1000000"

definition time_Sleep :: "int \<Rightarrow> world \<Rightarrow> world" where
  "time_Sleep d w = w\<lparr>clock := clock w + d, trace := trace w @ [Slept (clock w) d]\<rparr>"

text \<open>\<open>Applications(nil)\<close>: one listing request.\<close>

definition Applications :: "marathonClient \<Rightarrow> world \<Rightarrow> (error + Application list) \<times> world" where
  "Applications r w =
     (case apiGet_apps r (clock w) of
        (resp, d) \<Rightarrow> (resp, w\<lparr>clock := clock w + d, trace := trace w @ [Listed (clock w)]\<rparr>))"

definition ListApplications :: "marathonClient \<Rightarrow> world \<Rightarrow> (error + string list) \<times> world" where
  "ListApplications r w =
     (case Applications r w of
        (Inl err, w') \<Rightarrow> (Inl err, w')
      | (Inr applications, w') \<Rightarrow> (Inr (map ID applications), w'))"

text \<open>The loop of HasApplication over the listed ids.\<close>

fun id_listed :: "string \<Rightarrow> string list \<Rightarrow> bool" where
  "id_listed name [] = False"
| "id_listed name (i # ids) = (if name = i then True else id_listed name ids)"

definition HasApplication :: "marathonClient \<Rightarrow> string \<Rightarrow> world \<Rightarrow> (error + bool) \<times> world" where
  "HasApplication r name w =
     (if name = [] then (Inl ErrInvalidArgument, w)
      else case ListApplications r w of
        (Inl err, w') \<Rightarrow> (Inl err, w')
      | (Inr applications, w') \<Rightarrow> (Inr (id_listed name applications), w'))"

definition Application :: "marathonClient \<Rightarrow> string \<Rightarrow> world \<Rightarrow> (error + Application) \<times> world" where
  "Application r name w =
     (case apiGet_app r name (clock w) of
        (resp, d) \<Rightarrow> (resp, w\<lparr>clock := clock w + d, trace := trace w @ [Fetched name (clock w)]\<rparr>))"

section \<open>ApplicationOK\<close>

text \<open>
  The inner loop over the slots of one task: \<open>False\<close> is the early \<open>return false, nil\<close>,
  \<open>True\<close> is the loop running to its end.
\<close>

fun checks_pass :: "HealthCheckResult option list \<Rightarrow> bool" where
  "checks_pass [] = True"
| "checks_pass (check # rest) =
     (case check of
        None \<Rightarrow> False
      | Some c \<Rightarrow> if \<not> Alive c then False else checks_pass rest)"

text \<open>The outer loop over the tasks, with its guard on a nil result slice.\<close>

fun tasks_pass :: "Task list \<Rightarrow> bool" where
  "tasks_pass [] = True"
| "tasks_pass (task # rest) =
     (if HealthCheckResult task \<noteq> None
      then (if checks_pass (slice_range (HealthCheckResult task)) then tasks_pass rest else False)
      else tasks_pass rest)"

text \<open>The result is Go's pair \<open>(bool, error)\<close>, with \<open>None\<close> for the nil error.\<close>

definition ApplicationOK ::
  "marathonClient \<Rightarrow> string \<Rightarrow> world \<Rightarrow> (bool \<times> error option) \<times> world" where
  "ApplicationOK r name w =
     (case HasApplication r name w of
        (Inl err, w1) \<Rightarrow> ((False, Some err), w1)
      | (Inr found, w1) \<Rightarrow>
          if \<not> found then ((False, Some ErrDoesNotExist), w1)
          else (case Application r name w1 of
            (Inl err, w2) \<Rightarrow> ((False, Some err), w2)
          | (Inr application, w2) \<Rightarrow>
              if \<not> AllTaskRunning application then ((False, None), w2)
              else if HealthChecks application = None \<or> slice_len (HealthChecks application) \<le> 0
                then ((True, None), w2)
              else ((tasks_pass (slice_range (Tasks application)), None), w2)))"

section \<open>WaitOnApplication\<close>

text \<open>
  The poll loop of the closure handed to \<open>deadline\<close>. \<open>flick\<close> is what \<open>flick.IsSwitched()\<close>
  reads at an instant of the clock: the switch is turned on by the goroutine that waits on
  the stop channel. The loop may run forever, so it runs on fuel (one unit per test of the
  loop condition) and \<open>None\<close> says that it has not returned within the fuel. A returned
  \<open>Some (e, w)\<close> is the closure's \<open>error\<close> and the world it returned in.

  In the source order: a failed existence check is \<open>continue\<close>; a found application is
  fetched and, when the fetch succeeds and AllTaskRunning holds, the closure returns nil;
  every other path reaches \<open>time.Sleep(500 * time.Millisecond)\<close>.
\<close>

fun poll_loop ::
  "nat \<Rightarrow> marathonClient \<Rightarrow> string \<Rightarrow> (int \<Rightarrow> bool) \<Rightarrow> world \<Rightarrow> (error option \<times> world) option" where
  "poll_loop 0 r name flick w = None"
| "poll_loop (Suc n) r name flick w =
     (if flick (clock w) then Some (None, w)
      else case HasApplication r name w of
        (Inl err, w1) \<Rightarrow> poll_loop n r name flick w1
      | (Inr found, w1) \<Rightarrow>
          if found then
            (case Application r name w1 of
               (Inr app, w2) \<Rightarrow>
                 if AllTaskRunning app then Some (None, w2)
                 else poll_loop n r name flick (time_Sleep (500 * Millisecond) w2)
             | (Inl err, w2) \<Rightarrow> poll_loop n r name flick (time_Sleep (500 * Millisecond) w2))
          else poll_loop n r name flick (time_Sleep (500 * Millisecond) w1))"

text \<open>
  \<open>deadline\<close> is declared outside application.go, so WaitOnApplication takes it as a
  parameter \<open>deadline_fn\<close>: it receives the timeout and the closure (a function of the stop
  channel, read as "has a stop been sent by this instant") and gives the call's outcome:
  \<open>None\<close> when the call has not returned within the fuel, \<open>Some e\<close> for the returned error.
\<close>

type_synonym work = "(int \<Rightarrow> bool) \<Rightarrow> world \<Rightarrow> (error option \<times> world) option"

definition WaitOnApplication ::
  "nat \<Rightarrow> (int \<Rightarrow> work \<Rightarrow> world \<Rightarrow> error option option) \<Rightarrow> marathonClient \<Rightarrow> string \<Rightarrow> int \<Rightarrow> world
     \<Rightarrow> error option option" where
  "WaitOnApplication fuel deadline_fn r name timeout w =
     (let timeout' = (if timeout \<le> 0 then DefaultDeploymentTimeout (config r) else timeout)
      in deadline_fn timeout' (\<lambda>stop_channel. poll_loop fuel r name stop_channel) w)"

text \<open>
  Modelled from the spec: \<open>deadline\<close> (the spec's runBounded, section 4.3), which is not in
  application.go. The timer fires \<open>timeout\<close> after the start; from then on the stop channel
  holds a stop. Exactly one of the two decides: the work's result when the work returns
  before the timer fires, the timeout error otherwise, the work's result then being
  discarded.
\<close>

definition deadline :: "int \<Rightarrow> work \<Rightarrow> world \<Rightarrow> error option option" where
  "deadline timeout work w =
     (case work (\<lambda>t. clock w + timeout \<le> t) w of
        None \<Rightarrow> None
      | Some (err, w') \<Rightarrow>
          if clock w' < clock w + timeout then Some err else Some (Some ErrTimeoutError))"

section \<open>CreateApplication and UpdateApplication\<close>

text \<open>
  Both submit the mutation and, when \<open>waitOnRunning\<close> is set, return what
  \<open>WaitOnApplication(application.ID, 0)\<close> returns. The result is Go's pair, inside an
  option that is \<open>None\<close> when the wait has not returned within the fuel.
\<close>

definition CreateApplication ::
  "nat \<Rightarrow> (int \<Rightarrow> work \<Rightarrow> world \<Rightarrow> error option option) \<Rightarrow> marathonClient \<Rightarrow> Application \<Rightarrow> bool \<Rightarrow> world
     \<Rightarrow> (Application option \<times> error option) option" where
  "CreateApplication fuel deadline_fn r application waitOnRunning w =
     (case apiPost_apps r application (clock w) of
        (Inl err, d) \<Rightarrow> Some (None, Some err)
      | (Inr result, d) \<Rightarrow>
          if waitOnRunning then
            map_option (\<lambda>e. (Some result, e))
              (WaitOnApplication fuel deadline_fn r (ID application) 0
                 (w\<lparr>clock := clock w + d, trace := trace w @ [Posted (ID application) (clock w)]\<rparr>))
          else Some (Some result, None))"

definition UpdateApplication ::
  "nat \<Rightarrow> (int \<Rightarrow> work \<Rightarrow> world \<Rightarrow> error option option) \<Rightarrow> marathonClient \<Rightarrow> Application \<Rightarrow> bool \<Rightarrow> world
     \<Rightarrow> (DeploymentID option \<times> error option) option" where
  "UpdateApplication fuel deadline_fn r application waitOnRunning w =
     (case apiPut_app r application (clock w) of
        (Inl err, d) \<Rightarrow> Some (None, Some err)
      | (Inr result, d) \<Rightarrow>
          if waitOnRunning then
            map_option (\<lambda>e. (Some result, e))
              (WaitOnApplication fuel deadline_fn r (ID application) 0
                 (w\<lparr>clock := clock w + d, trace := trace w @ [Put (ID application) (clock w)]\<rparr>))
          else Some (Some result, None))"

section \<open>Vocabulary of the readiness claims\<close>

text \<open>
  A slot of a task's result slice is bad when it is nil (the Unknown of a flapping task) or
  holds a result that is not alive. An application is all green when no slot of any listed
  task is bad; a task whose result slice is nil has no slots.
\<close>

definition bad_slot :: "HealthCheckResult option \<Rightarrow> bool" where
  "bad_slot s = (case s of None \<Rightarrow> True | Some c \<Rightarrow> \<not> Alive c)"

definition all_slots_alive :: "Application \<Rightarrow> bool" where
  "all_slots_alive app =
     (\<forall>task \<in> set (slice_range (Tasks app)).
        \<forall>s \<in> set (slice_range (HealthCheckResult task)). \<not> bad_slot s)"

section \<open>Concrete snapshots and catalogs\<close>

definition hc_http :: HealthCheck where
  "hc_http = \<lparr>Protocol = ''HTTP'', Path = ''/health'', PortIndex = 0, IntervalSeconds = 10\<rparr>"

definition alive :: HealthCheckResult where
  "alive = \<lparr>Alive = True\<rparr>"

definition dead :: HealthCheckResult where
  "dead = \<lparr>Alive = False\<rparr>"

definition task_green :: Task where
  "task_green = \<lparr>HealthCheckResult = Some [Some alive, Some alive]\<rparr>"

definition task_dead :: Task where
  "task_dead = \<lparr>HealthCheckResult = Some [Some alive, Some dead]\<rparr>"

definition task_flapping :: Task where
  "task_flapping = \<lparr>HealthCheckResult = Some [Some alive, None]\<rparr>"

definition task_no_results :: Task where
  "task_no_results = \<lparr>HealthCheckResult = None\<rparr>"

text \<open>Scaled to zero while one task with a failing check is still listed.\<close>

definition app_zero_dead :: Application where
  "app_zero_dead = \<lparr>ID = ''/web-1'', HealthChecks = Some [hc_http], Instances = 0,
     Tasks = Some [task_dead], TasksRunning = 1\<rparr>"

text \<open>Scaled to zero, nothing listed, checks configured.\<close>

definition app_zero_idle :: Application where
  "app_zero_idle = \<lparr>ID = ''/web-1'', HealthChecks = Some [hc_http], Instances = 0,
     Tasks = None, TasksRunning = 0\<rparr>"

text \<open>Two of two running; one task has no result slice this poll, the other is green.\<close>

definition app_nil_results :: Application where
  "app_nil_results = \<lparr>ID = ''/web-1'', HealthChecks = Some [hc_http, hc_http], Instances = 2,
     Tasks = Some [task_no_results, task_green], TasksRunning = 2\<rparr>"

text \<open>Three of three running, two checks each, all alive.\<close>

definition app_green :: Application where
  "app_green = \<lparr>ID = ''/web-1'', HealthChecks = Some [hc_http, hc_http], Instances = 3,
     Tasks = Some [task_green, task_green, task_green], TasksRunning = 3\<rparr>"

text \<open>Three of three running, one nil slot in the last task.\<close>

definition app_flapping :: Application where
  "app_flapping = \<lparr>ID = ''/web-1'', HealthChecks = Some [hc_http, hc_http], Instances = 3,
     Tasks = Some [task_green, task_green, task_flapping], TasksRunning = 3\<rparr>"

text \<open>Three wanted, three listed and green, two reported running.\<close>

definition app_short :: Application where
  "app_short = \<lparr>ID = ''/web-1'', HealthChecks = Some [hc_http, hc_http], Instances = 3,
     Tasks = Some [task_green, task_green, task_green], TasksRunning = 2\<rparr>"

text \<open>No health checks configured, two of two running.\<close>

definition app_plain :: Application where
  "app_plain = \<lparr>ID = ''/web-1'', HealthChecks = None, Instances = 2,
     Tasks = Some [task_no_results, task_no_results], TasksRunning = 2\<rparr>"

text \<open>Three wanted, a present but empty task list, three reported running.\<close>

definition app_empty_tasks :: Application where
  "app_empty_tasks = \<lparr>ID = ''/web-1'', HealthChecks = None, Instances = 3,
     Tasks = Some [], TasksRunning = 3\<rparr>"

text \<open>Three wanted, no task list yet, three reported running.\<close>

definition app_unscheduled :: Application where
  "app_unscheduled = \<lparr>ID = ''/web-1'', HealthChecks = None, Instances = 3,
     Tasks = None, TasksRunning = 3\<rparr>"

text \<open>Two of two running, one task failing a configured check.\<close>

definition app_parity_red :: Application where
  "app_parity_red = \<lparr>ID = ''/web-1'', HealthChecks = Some [hc_http, hc_http], Instances = 2,
     Tasks = Some [task_dead, task_green], TasksRunning = 2\<rparr>"

definition deployment_1 :: DeploymentID where
  "deployment_1 = \<lparr>DeploymentID = ''d-1'', Version = ''v-1''\<rparr>"

text \<open>
  A catalog that holds exactly one application and always answers, each round trip taking
  20 ms; the configured default deployment timeout is 300 s.
\<close>

definition static_client :: "Application \<Rightarrow> marathonClient" where
  "static_client app =
     \<lparr>config = \<lparr>DefaultDeploymentTimeout = 300000 * Millisecond\<rparr>,
      apiGet_apps = (\<lambda>t. (Inr [app], 20 * Millisecond)),
      apiGet_app = (\<lambda>name t.
         if name = ID app then (Inr app, 20 * Millisecond)
         else (Inl (TransportError ''404''), 20 * Millisecond)),
      apiPost_apps = (\<lambda>a t. (Inr a, 20 * Millisecond)),
      apiPut_app = (\<lambda>a t. (Inr deployment_1, 20 * Millisecond))\<rparr>"

text \<open>A catalog whose every request fails after 20 ms.\<close>

definition failing_client :: marathonClient where
  "failing_client =
     \<lparr>config = \<lparr>DefaultDeploymentTimeout = 300000 * Millisecond\<rparr>,
      apiGet_apps = (\<lambda>t. (Inl (TransportError ''503''), 20 * Millisecond)),
      apiGet_app = (\<lambda>name t. (Inl (TransportError ''503''), 20 * Millisecond)),
      apiPost_apps = (\<lambda>a t. (Inl (TransportError ''503''), 20 * Millisecond)),
      apiPut_app = (\<lambda>a t. (Inl (TransportError ''503''), 20 * Millisecond))\<rparr>"

text \<open>
  A catalog whose listing works and whose fetch of a single application fails: the sibling
  path of the poll loop.
\<close>

definition fetch_failing_client :: "Application \<Rightarrow> marathonClient" where
  "fetch_failing_client app =
     (static_client app)\<lparr>apiGet_app := (\<lambda>name t. (Inl (TransportError ''503''), 20 * Millisecond))\<rparr>"

text \<open>
  The world at the start of a call, after the listing of a 20 ms catalog has come back,
  and after the fetch of \<open>/web-1\<close> has come back too.
\<close>

definition w0 :: world where
  "w0 = \<lparr>clock = 0, trace = []\<rparr>"

definition w_listed :: world where
  "w_listed = \<lparr>clock = 20 * Millisecond, trace = [Listed 0]\<rparr>"

definition w_fetched :: world where
  "w_fetched = \<lparr>clock = 40 * Millisecond,
     trace = [Listed 0, Fetched ''/web-1'' (20 * Millisecond)]\<rparr>"

text \<open>The switch as the loop reads it when the stop arrives at instant \<open>d\<close>.\<close>

definition stop_at :: "int \<Rightarrow> int \<Rightarrow> bool" where
  "stop_at d t = (d \<le> t)"

section \<open>The two loops of ApplicationOK\<close>

lemma checks_pass_iff: "checks_pass cs \<longleftrightarrow> (\<forall>s \<in> set cs. \<not> bad_slot s)"
  by (induction cs) (auto simp: bad_slot_def split: option.splits)

lemma tasks_pass_iff:
  "tasks_pass ts \<longleftrightarrow>
     (\<forall>task \<in> set ts. \<forall>s \<in> set (slice_range (HealthCheckResult task)). \<not> bad_slot s)"
  by (induction ts) (auto simp: checks_pass_iff slice_range_def split: option.splits)

lemma tasks_pass_all_slots_alive: "tasks_pass (slice_range (Tasks app)) = all_slots_alive app"
  by (simp add: tasks_pass_iff all_slots_alive_def)

lemma nil_results_no_slots:
  "HealthCheckResult task = None \<Longrightarrow> s \<notin> set (slice_range (HealthCheckResult task))"
  by (simp add: slice_range_def)

lemma HasHealthChecks_iff:
  "HasHealthChecks app \<longleftrightarrow> \<not> (HealthChecks app = None \<or> slice_len (HealthChecks app) \<le> 0)"
  by (auto simp: HasHealthChecks_def)

text \<open>ApplicationOK once the existence check and the fetch have succeeded.\<close>

lemma ApplicationOK_fetched:
  assumes "HasApplication r name w = (Inr True, w1)"
    and "Application r name w1 = (Inr app, w2)"
  shows "ApplicationOK r name w =
     ((if \<not> AllTaskRunning app then False
       else if HealthChecks app = None \<or> slice_len (HealthChecks app) \<le> 0 then True
       else tasks_pass (slice_range (Tasks app)), None), w2)"
  using assms by (simp add: ApplicationOK_def)

lemma ApplicationOK_checked:
  assumes "HasApplication r name w = (Inr True, w1)"
    and "Application r name w1 = (Inr app, w2)"
    and "HasHealthChecks app"
    and "AllTaskRunning app"
  shows "ApplicationOK r name w = ((all_slots_alive app, None), w2)"
  using assms
  by (auto simp: ApplicationOK_fetched HasHealthChecks_iff tasks_pass_all_slots_alive)

text \<open>The static catalog lists and hands back its one application.\<close>

lemma static_listed:
  "ID app = ''/web-1'' \<Longrightarrow>
   HasApplication (static_client app) ''/web-1'' w0 = (Inr True, w_listed)"
  by (simp add: HasApplication_def ListApplications_def Applications_def static_client_def
      w0_def w_listed_def)

lemma static_fetched:
  "ID app = ''/web-1'' \<Longrightarrow>
   Application (static_client app) ''/web-1'' w_listed = (Inr app, w_fetched)"
  by (simp add: Application_def static_client_def w_listed_def w_fetched_def)

section \<open>Readiness of a fetched snapshot\<close>

text \<open>
  Claim C1, as the code has it. For a snapshot whose desired instance count is 0 the
  instance-count step AllTaskRunning is satisfied whatever the task list and the running
  count are, but ApplicationOK then goes on to the health checks: it returns Ready
  (true, nil) exactly when no health checks are configured or no slot of any listed task is
  nil or not alive, and NotReady (false, nil) otherwise.
\<close>

theorem ApplicationOK_zero_instances:
  assumes "Instances app = 0"
    and "HasApplication r name w = (Inr True, w1)"
    and "Application r name w1 = (Inr app, w2)"
  shows "AllTaskRunning app \<and>
     fst (ApplicationOK r name w) = (\<not> HasHealthChecks app \<or> all_slots_alive app, None)"
  using assms
  by (auto simp: ApplicationOK_fetched AllTaskRunning_def HasHealthChecks_iff
      tasks_pass_all_slots_alive)

text \<open>A scaled-to-zero application with checks configured and nothing listed is Ready.\<close>

theorem ApplicationOK_zero_instances_witness:
  "Instances app_zero_idle = 0 \<and>
   HasApplication (static_client app_zero_idle) ''/web-1'' w0 = (Inr True, w_listed) \<and>
   Application (static_client app_zero_idle) ''/web-1'' w_listed = (Inr app_zero_idle, w_fetched) \<and>
   AllTaskRunning app_zero_idle \<and>
   fst (ApplicationOK (static_client app_zero_idle) ''/web-1'' w0) = (True, None)"
proof -
  have i: "Instances app_zero_idle = 0"
    by (simp add: app_zero_idle_def)
  have l: "HasApplication (static_client app_zero_idle) ''/web-1'' w0 = (Inr True, w_listed)"
    by (rule static_listed) (simp add: app_zero_idle_def)
  have f: "Application (static_client app_zero_idle) ''/web-1'' w_listed
      = (Inr app_zero_idle, w_fetched)"
    by (rule static_fetched) (simp add: app_zero_idle_def)
  have g: "all_slots_alive app_zero_idle"
    by (simp add: all_slots_alive_def app_zero_idle_def slice_range_def)
  from ApplicationOK_zero_instances [OF i l f] i l f g show ?thesis
    by simp
qed

text \<open>
  Claim C1 as stated fails: a scaled-to-zero application with a configured check and one
  listed task whose check is not alive is reported NotReady.
\<close>

theorem ApplicationOK_zero_instances_counterexample:
  "Instances app_zero_dead = 0 \<and>
   fst (ApplicationOK (static_client app_zero_dead) ''/web-1'' w0) = (False, None)"
  by (simp add: ApplicationOK_def HasApplication_def ListApplications_def Applications_def
      Application_def static_client_def w0_def AllTaskRunning_def
      app_zero_dead_def task_dead_def alive_def dead_def slice_len_def slice_range_def)

text \<open>
  Claim C2, as the code has it. For a snapshot with configured health checks and
  instance-count parity in which some task's whole result slice is nil, that task is
  skipped by the guard on the nil slice: ApplicationOK returns Ready exactly when every
  slot of every task that has a result slice is alive. So it returns Ready when every other
  task is fully alive.
\<close>

theorem ApplicationOK_nil_results_skipped:
  assumes "HasApplication r name w = (Inr True, w1)"
    and "Application r name w1 = (Inr app, w2)"
    and "HasHealthChecks app"
    and "AllTaskRunning app"
    and "\<exists>task \<in> set (slice_range (Tasks app)). HealthCheckResult task = None"
  shows "fst (ApplicationOK r name w) =
     ((\<forall>task \<in> set (slice_range (Tasks app)).
         HealthCheckResult task \<noteq> None \<longrightarrow>
           (\<forall>s \<in> set (slice_range (HealthCheckResult task)). \<not> bad_slot s)), None)"
proof -
  have "all_slots_alive app =
     (\<forall>task \<in> set (slice_range (Tasks app)).
         HealthCheckResult task \<noteq> None \<longrightarrow>
           (\<forall>s \<in> set (slice_range (HealthCheckResult task)). \<not> bad_slot s))"
    unfolding all_slots_alive_def using nil_results_no_slots by blast
  with ApplicationOK_checked [OF assms(1-4)] show ?thesis
    by simp
qed

text \<open>Two of two running, one task without a result slice, the other green: Ready.\<close>

theorem ApplicationOK_nil_results_skipped_witness:
  "HasApplication (static_client app_nil_results) ''/web-1'' w0 = (Inr True, w_listed) \<and>
   Application (static_client app_nil_results) ''/web-1'' w_listed
     = (Inr app_nil_results, w_fetched) \<and>
   HasHealthChecks app_nil_results \<and> AllTaskRunning app_nil_results \<and>
   task_no_results \<in> set (slice_range (Tasks app_nil_results)) \<and>
   HealthCheckResult task_no_results = None \<and>
   fst (ApplicationOK (static_client app_nil_results) ''/web-1'' w0) = (True, None)"
proof -
  have l: "HasApplication (static_client app_nil_results) ''/web-1'' w0 = (Inr True, w_listed)"
    by (rule static_listed) (simp add: app_nil_results_def)
  have f: "Application (static_client app_nil_results) ''/web-1'' w_listed
      = (Inr app_nil_results, w_fetched)"
    by (rule static_fetched) (simp add: app_nil_results_def)
  have h: "HasHealthChecks app_nil_results"
    by (simp add: HasHealthChecks_def app_nil_results_def slice_len_def)
  have a: "AllTaskRunning app_nil_results"
    by (simp add: AllTaskRunning_def app_nil_results_def)
  have m: "task_no_results \<in> set (slice_range (Tasks app_nil_results))"
    by (simp add: app_nil_results_def slice_range_def)
  have n: "HealthCheckResult task_no_results = None"
    by (simp add: task_no_results_def)
  from m n have e:
    "\<exists>task \<in> set (slice_range (Tasks app_nil_results)). HealthCheckResult task = None"
    by blast
  have "fst (ApplicationOK (static_client app_nil_results) ''/web-1'' w0) = (True, None)"
    using ApplicationOK_nil_results_skipped [OF l f h a e]
    by (simp add: app_nil_results_def slice_range_def task_no_results_def task_green_def
        bad_slot_def alive_def)
  with l f h a m n show ?thesis
    by simp
qed

text \<open>
  Claim C2 as stated fails: with checks configured and parity, a task whose result slice
  is nil does not make the verdict NotReady; the call returns (true, nil).
\<close>

theorem ApplicationOK_nil_results_counterexample:
  "HasHealthChecks app_nil_results \<and> AllTaskRunning app_nil_results \<and>
   task_no_results \<in> set (slice_range (Tasks app_nil_results)) \<and>
   HealthCheckResult task_no_results = None \<and>
   fst (ApplicationOK (static_client app_nil_results) ''/web-1'' w0) = (True, None)"
  by (simp add: ApplicationOK_def HasApplication_def ListApplications_def Applications_def
      Application_def static_client_def w0_def AllTaskRunning_def HasHealthChecks_def
      app_nil_results_def task_no_results_def task_green_def alive_def
      slice_len_def slice_range_def)

text \<open>
  Claim C3. For a snapshot with configured health checks that passes the instance-count
  step: if some slot of some listed task is nil or holds a result with Alive false,
  ApplicationOK returns NotReady (false, nil), whatever the other slots are; it returns
  Ready (true, nil) exactly when every slot of every listed task holds an alive result.
\<close>

theorem ApplicationOK_all_slots:
  assumes "HasApplication r name w = (Inr True, w1)"
    and "Application r name w1 = (Inr app, w2)"
    and "HasHealthChecks app"
    and "AllTaskRunning app"
  shows "((\<exists>task \<in> set (slice_range (Tasks app)).
             \<exists>s \<in> set (slice_range (HealthCheckResult task)). s = None \<or> (\<exists>c. s = Some c \<and> Alive c = False))
           \<longrightarrow> fst (ApplicationOK r name w) = (False, None)) \<and>
         (fst (ApplicationOK r name w) = (True, None) \<longleftrightarrow>
            (\<forall>task \<in> set (slice_range (Tasks app)).
               \<forall>s \<in> set (slice_range (HealthCheckResult task)). \<exists>c. s = Some c \<and> Alive c)) \<and>
         fst (ApplicationOK r name w) = (all_slots_alive app, None)"
proof -
  have b: "bad_slot s \<longleftrightarrow> s = None \<or> (\<exists>c. s = Some c \<and> Alive c = False)" for s
    by (cases s) (simp_all add: bad_slot_def)
  have g: "\<not> bad_slot s \<longleftrightarrow> (\<exists>c. s = Some c \<and> Alive c)" for s
    by (cases s) (simp_all add: bad_slot_def)
  have v: "fst (ApplicationOK r name w) = (all_slots_alive app, None)"
    using ApplicationOK_checked [OF assms] by simp
  have 1: "(\<exists>task \<in> set (slice_range (Tasks app)).
             \<exists>s \<in> set (slice_range (HealthCheckResult task)). s = None \<or> (\<exists>c. s = Some c \<and> Alive c = False))
           \<longrightarrow> fst (ApplicationOK r name w) = (False, None)"
    unfolding v all_slots_alive_def b by blast
  have 2: "fst (ApplicationOK r name w) = (True, None) \<longleftrightarrow>
            (\<forall>task \<in> set (slice_range (Tasks app)).
               \<forall>s \<in> set (slice_range (HealthCheckResult task)). \<exists>c. s = Some c \<and> Alive c)"
    unfolding v all_slots_alive_def g by simp
  from 1 2 v show ?thesis by blast
qed

text \<open>
  Three of three running: a nil slot in the last task gives NotReady; all slots alive gives
  Ready.
\<close>

theorem ApplicationOK_all_slots_witness:
  "HasApplication (static_client app_flapping) ''/web-1'' w0 = (Inr True, w_listed) \<and>
   Application (static_client app_flapping) ''/web-1'' w_listed = (Inr app_flapping, w_fetched) \<and>
   HasHealthChecks app_flapping \<and> AllTaskRunning app_flapping \<and>
   task_flapping \<in> set (slice_range (Tasks app_flapping)) \<and>
   None \<in> set (slice_range (HealthCheckResult task_flapping)) \<and>
   fst (ApplicationOK (static_client app_flapping) ''/web-1'' w0) = (False, None) \<and>
   HasApplication (static_client app_green) ''/web-1'' w0 = (Inr True, w_listed) \<and>
   Application (static_client app_green) ''/web-1'' w_listed = (Inr app_green, w_fetched) \<and>
   HasHealthChecks app_green \<and> AllTaskRunning app_green \<and> all_slots_alive app_green \<and>
   fst (ApplicationOK (static_client app_green) ''/web-1'' w0) = (True, None)"
proof -
  have l: "HasApplication (static_client app_flapping) ''/web-1'' w0 = (Inr True, w_listed)"
    by (rule static_listed) (simp add: app_flapping_def)
  have f: "Application (static_client app_flapping) ''/web-1'' w_listed
      = (Inr app_flapping, w_fetched)"
    by (rule static_fetched) (simp add: app_flapping_def)
  have h: "HasHealthChecks app_flapping"
    by (simp add: HasHealthChecks_def app_flapping_def slice_len_def)
  have a: "AllTaskRunning app_flapping"
    by (simp add: AllTaskRunning_def app_flapping_def)
  have m: "task_flapping \<in> set (slice_range (Tasks app_flapping))"
    by (simp add: app_flapping_def slice_range_def)
  have n: "None \<in> set (slice_range (HealthCheckResult task_flapping))"
    by (simp add: task_flapping_def slice_range_def)
  from m n have e: "\<exists>task \<in> set (slice_range (Tasks app_flapping)).
      \<exists>s \<in> set (slice_range (HealthCheckResult task)).
        s = None \<or> (\<exists>c. s = Some c \<and> Alive c = False)"
    by blast
  from ApplicationOK_all_slots [OF l f h a] e
  have 1: "fst (ApplicationOK (static_client app_flapping) ''/web-1'' w0) = (False, None)"
    by blast
  have l': "HasApplication (static_client app_green) ''/web-1'' w0 = (Inr True, w_listed)"
    by (rule static_listed) (simp add: app_green_def)
  have f': "Application (static_client app_green) ''/web-1'' w_listed = (Inr app_green, w_fetched)"
    by (rule static_fetched) (simp add: app_green_def)
  have h': "HasHealthChecks app_green"
    by (simp add: HasHealthChecks_def app_green_def slice_len_def)
  have a': "AllTaskRunning app_green"
    by (simp add: AllTaskRunning_def app_green_def)
  have g': "all_slots_alive app_green"
    by (simp add: all_slots_alive_def app_green_def slice_range_def task_green_def
        bad_slot_def alive_def)
  from ApplicationOK_all_slots [OF l' f' h' a'] g'
  have 2: "fst (ApplicationOK (static_client app_green) ''/web-1'' w0) = (True, None)"
    by simp
  from l f h a m n 1 l' f' h' a' g' 2 show ?thesis
    by blast
qed

text \<open>
  Claim C4. For a snapshot with a positive desired instance count, a present task list
  and a reported running count (TasksRunning) that differs from the desired count, the
  verdict is NotReady (false, nil), whatever the tasks and the health checks hold: the
  comparison reads the reported count and does not count the listed tasks.
\<close>

theorem ApplicationOK_count_mismatch:
  assumes "HasApplication r name w = (Inr True, w1)"
    and "Application r name w1 = (Inr app, w2)"
    and "0 < Instances app"
    and "Tasks app \<noteq> None"
    and "TasksRunning app \<noteq> Instances app"
  shows "\<not> AllTaskRunning app \<and> fst (ApplicationOK r name w) = (False, None)"
  using assms by (auto simp: ApplicationOK_fetched AllTaskRunning_def)

text \<open>
  Three wanted, three listed and all green, two reported running: NotReady.
\<close>

theorem ApplicationOK_count_mismatch_witness:
  "HasApplication (static_client app_short) ''/web-1'' w0 = (Inr True, w_listed) \<and>
   Application (static_client app_short) ''/web-1'' w_listed = (Inr app_short, w_fetched) \<and>
   0 < Instances app_short \<and> Tasks app_short \<noteq> None \<and>
   TasksRunning app_short \<noteq> Instances app_short \<and>
   int (slice_len (Tasks app_short)) = Instances app_short \<and> all_slots_alive app_short \<and>
   \<not> AllTaskRunning app_short \<and>
   fst (ApplicationOK (static_client app_short) ''/web-1'' w0) = (False, None)"
proof -
  have l: "HasApplication (static_client app_short) ''/web-1'' w0 = (Inr True, w_listed)"
    by (rule static_listed) (simp add: app_short_def)
  have f: "Application (static_client app_short) ''/web-1'' w_listed = (Inr app_short, w_fetched)"
    by (rule static_fetched) (simp add: app_short_def)
  have i: "0 < Instances app_short"
    by (simp add: app_short_def)
  have t: "Tasks app_short \<noteq> None"
    by (simp add: app_short_def)
  have d: "TasksRunning app_short \<noteq> Instances app_short"
    by (simp add: app_short_def)
  have c: "int (slice_len (Tasks app_short)) = Instances app_short"
    by (simp add: app_short_def slice_len_def)
  have g: "all_slots_alive app_short"
    by (simp add: all_slots_alive_def app_short_def slice_range_def task_green_def
        bad_slot_def alive_def)
  from ApplicationOK_count_mismatch [OF l f i t d] l f i t d c g show ?thesis
    by simp
qed

text \<open>
  Claim C5. For a snapshot without configured health checks (a nil or an empty slice), a
  positive desired instance count, a present task list and a reported running count equal
  to the desired count, ApplicationOK returns Ready (true, nil).
\<close>

theorem ApplicationOK_no_health_checks:
  assumes "HasApplication r name w = (Inr True, w1)"
    and "Application r name w1 = (Inr app, w2)"
    and "HealthChecks app = None \<or> HealthChecks app = Some []"
    and "0 < Instances app"
    and "Tasks app \<noteq> None"
    and "TasksRunning app = Instances app"
  shows "fst (ApplicationOK r name w) = (True, None)"
  using assms by (auto simp: ApplicationOK_fetched AllTaskRunning_def slice_len_def)

text \<open>
  No checks configured, two of two running: Ready.
\<close>

theorem ApplicationOK_no_health_checks_witness:
  "HasApplication (static_client app_plain) ''/web-1'' w0 = (Inr True, w_listed) \<and>
   Application (static_client app_plain) ''/web-1'' w_listed = (Inr app_plain, w_fetched) \<and>
   HealthChecks app_plain = None \<and> 0 < Instances app_plain \<and> Tasks app_plain \<noteq> None \<and>
   TasksRunning app_plain = Instances app_plain \<and>
   fst (ApplicationOK (static_client app_plain) ''/web-1'' w0) = (True, None)"
proof -
  have l: "HasApplication (static_client app_plain) ''/web-1'' w0 = (Inr True, w_listed)"
    by (rule static_listed) (simp add: app_plain_def)
  have f: "Application (static_client app_plain) ''/web-1'' w_listed = (Inr app_plain, w_fetched)"
    by (rule static_fetched) (simp add: app_plain_def)
  have h: "HealthChecks app_plain = None"
    by (simp add: app_plain_def)
  then have h': "HealthChecks app_plain = None \<or> HealthChecks app_plain = Some []"
    by simp
  have i: "0 < Instances app_plain"
    by (simp add: app_plain_def)
  have t: "Tasks app_plain \<noteq> None"
    by (simp add: app_plain_def)
  have d: "TasksRunning app_plain = Instances app_plain"
    by (simp add: app_plain_def)
  from ApplicationOK_no_health_checks [OF l f h' i t d] l f h i t d show ?thesis
    by simp
qed

text \<open>
  Claim C6, as the code has it. For a snapshot with a positive desired instance count
  whose task list is nil, the verdict is NotReady whatever the reported running count is.
  A present but empty task list is not tested: the verdict is then the comparison of the
  reported running count with the desired count.
\<close>

theorem AllTaskRunning_unscheduled:
  assumes "0 < Instances app"
    and "HasApplication r name w = (Inr True, w1)"
    and "Application r name w1 = (Inr app, w2)"
  shows "(Tasks app = None \<longrightarrow>
            \<not> AllTaskRunning app \<and> fst (ApplicationOK r name w) = (False, None)) \<and>
         (Tasks app = Some [] \<longrightarrow>
            AllTaskRunning app = (TasksRunning app = Instances app) \<and>
            fst (ApplicationOK r name w) = (TasksRunning app = Instances app, None))"
  using assms
  by (auto simp: ApplicationOK_fetched AllTaskRunning_def slice_range_def)

text \<open>
  Three wanted and three reported running: NotReady with a nil task list, Ready with a
  present, empty one.
\<close>

theorem AllTaskRunning_unscheduled_witness:
  "0 < Instances app_unscheduled \<and> Tasks app_unscheduled = None \<and>
   HasApplication (static_client app_unscheduled) ''/web-1'' w0 = (Inr True, w_listed) \<and>
   Application (static_client app_unscheduled) ''/web-1'' w_listed
     = (Inr app_unscheduled, w_fetched) \<and>
   TasksRunning app_unscheduled = Instances app_unscheduled \<and>
   \<not> AllTaskRunning app_unscheduled \<and>
   fst (ApplicationOK (static_client app_unscheduled) ''/web-1'' w0) = (False, None) \<and>
   0 < Instances app_empty_tasks \<and> Tasks app_empty_tasks = Some [] \<and>
   HasApplication (static_client app_empty_tasks) ''/web-1'' w0 = (Inr True, w_listed) \<and>
   Application (static_client app_empty_tasks) ''/web-1'' w_listed
     = (Inr app_empty_tasks, w_fetched) \<and>
   TasksRunning app_empty_tasks = Instances app_empty_tasks \<and>
   AllTaskRunning app_empty_tasks \<and>
   fst (ApplicationOK (static_client app_empty_tasks) ''/web-1'' w0) = (True, None)"
proof -
  have i: "0 < Instances app_unscheduled"
    by (simp add: app_unscheduled_def)
  have t: "Tasks app_unscheduled = None"
    by (simp add: app_unscheduled_def)
  have l: "HasApplication (static_client app_unscheduled) ''/web-1'' w0 = (Inr True, w_listed)"
    by (rule static_listed) (simp add: app_unscheduled_def)
  have f: "Application (static_client app_unscheduled) ''/web-1'' w_listed
      = (Inr app_unscheduled, w_fetched)"
    by (rule static_fetched) (simp add: app_unscheduled_def)
  have d: "TasksRunning app_unscheduled = Instances app_unscheduled"
    by (simp add: app_unscheduled_def)
  have i': "0 < Instances app_empty_tasks"
    by (simp add: app_empty_tasks_def)
  have t': "Tasks app_empty_tasks = Some []"
    by (simp add: app_empty_tasks_def)
  have l': "HasApplication (static_client app_empty_tasks) ''/web-1'' w0 = (Inr True, w_listed)"
    by (rule static_listed) (simp add: app_empty_tasks_def)
  have f': "Application (static_client app_empty_tasks) ''/web-1'' w_listed
      = (Inr app_empty_tasks, w_fetched)"
    by (rule static_fetched) (simp add: app_empty_tasks_def)
  have d': "TasksRunning app_empty_tasks = Instances app_empty_tasks"
    by (simp add: app_empty_tasks_def)
  from AllTaskRunning_unscheduled [OF i l f] AllTaskRunning_unscheduled [OF i' l' f']
    i t l f d i' t' l' f' d'
  show ?thesis
    by simp
qed

text \<open>
  Claim C6 as stated fails for the present but empty task list: with three wanted and
  three reported running, AllTaskRunning holds and ApplicationOK returns (true, nil).
\<close>

theorem AllTaskRunning_unscheduled_counterexample:
  "0 < Instances app_empty_tasks \<and> Tasks app_empty_tasks = Some [] \<and>
   AllTaskRunning app_empty_tasks \<and>
   fst (ApplicationOK (static_client app_empty_tasks) ''/web-1'' w0) = (True, None)"
  by (simp add: ApplicationOK_def HasApplication_def ListApplications_def Applications_def
      Application_def static_client_def w0_def AllTaskRunning_def
      app_empty_tasks_def slice_len_def slice_range_def)

section \<open>The deployment wait\<close>

lemma poll_loop_ready:
  assumes "\<not> flick (clock w)"
    and "HasApplication r name w = (Inr True, w1)"
    and "Application r name w1 = (Inr app, w2)"
    and "AllTaskRunning app"
  shows "poll_loop (Suc n) r name flick w = Some (None, w2)"
  using assms by simp

lemma poll_loop_nil_error:
  "poll_loop n r name flick w = Some (e, w') \<Longrightarrow> e = None"
proof (induction n arbitrary: w)
  case 0
  then show ?case by simp
next
  case (Suc n)
  then show ?case
    by (auto split: if_splits prod.splits sum.splits)
qed

lemma deadline_outcomes:
  assumes "\<And>stop e w'. work stop w = Some (e, w') \<Longrightarrow> e = None"
  shows "deadline timeout work w \<in> {None, Some None, Some (Some ErrTimeoutError)}"
  using assms by (auto simp: deadline_def split: option.splits)

lemma WaitOnApplication_ready:
  assumes "HasApplication r name w = (Inr True, w1)"
    and "Application r name w1 = (Inr app, w2)"
    and "AllTaskRunning app"
    and "T = (if timeout \<le> 0 then DefaultDeploymentTimeout (config r) else timeout)"
    and "0 < T"
    and "clock w2 < clock w + T"
  shows "WaitOnApplication (Suc n) deadline r name timeout w = Some None"
proof -
  have "\<not> clock w + T \<le> clock w"
    using assms(5) by simp
  then have "poll_loop (Suc n) r name (\<lambda>t. clock w + T \<le> t) w = Some (None, w2)"
    using assms(1-3) by (intro poll_loop_ready) auto
  then show ?thesis
    using assms(4,6) by (simp add: WaitOnApplication_def deadline_def Let_def)
qed

lemma static_listed_at:
  "ID app = ''/web-1'' \<Longrightarrow>
   HasApplication (static_client app) ''/web-1'' w =
     (Inr True, w\<lparr>clock := clock w + 20 * Millisecond, trace := trace w @ [Listed (clock w)]\<rparr>)"
  by (simp add: HasApplication_def ListApplications_def Applications_def static_client_def)

lemma static_fetched_at:
  "ID app = ''/web-1'' \<Longrightarrow>
   Application (static_client app) ''/web-1'' w =
     (Inr app, w\<lparr>clock := clock w + 20 * Millisecond,
        trace := trace w @ [Fetched ''/web-1'' (clock w)]\<rparr>)"
  by (simp add: Application_def static_client_def)

lemma parity_red_facts:
  "ID app_parity_red = ''/web-1''" "AllTaskRunning app_parity_red"
  "HasHealthChecks app_parity_red" "\<not> all_slots_alive app_parity_red"
  by (simp_all add: app_parity_red_def AllTaskRunning_def HasHealthChecks_def slice_len_def
      all_slots_alive_def slice_range_def task_dead_def task_green_def bad_slot_def
      alive_def dead_def)

lemma parity_red_waits:
  "WaitOnApplication 1 deadline (static_client app_parity_red) ''/web-1'' 0 w0 = Some None"
  unfolding One_nat_def
  by (rule WaitOnApplication_ready
      [OF static_listed [OF parity_red_facts(1)] static_fetched [OF parity_red_facts(1)]
        parity_red_facts(2) refl])
    (simp_all add: static_client_def Millisecond_def w0_def w_fetched_def)

lemma parity_red_not_ok:
  "fst (ApplicationOK (static_client app_parity_red) ''/web-1'' w0) = (False, None)"
  using ApplicationOK_checked
    [OF static_listed [OF parity_red_facts(1)] static_fetched [OF parity_red_facts(1)]
      parity_red_facts(3) parity_red_facts(2)] parity_red_facts(4)
  by simp

lemma poll_loop_not_ready:
  assumes "\<not> flick (clock w)"
    and "HasApplication r name w = (Inr True, w1)"
    and "Application r name w1 = (Inr app, w2)"
    and "\<not> AllTaskRunning app"
  shows "poll_loop (Suc n) r name flick w
     = poll_loop n r name flick (time_Sleep (500 * Millisecond) w2)"
  using assms by simp

lemma poll_loop_not_listed:
  assumes "\<not> flick (clock w)"
    and "HasApplication r name w = (Inr False, w1)"
  shows "poll_loop (Suc n) r name flick w
     = poll_loop n r name flick (time_Sleep (500 * Millisecond) w1)"
  using assms by simp

lemma poll_loop_success_parity:
  "poll_loop n r name flick w = Some (e, w') \<Longrightarrow> \<not> flick (clock w') \<Longrightarrow>
   \<exists>wa wb app. \<not> flick (clock wa) \<and> HasApplication r name wa = (Inr True, wb) \<and>
     Application r name wb = (Inr app, w') \<and> AllTaskRunning app"
proof (induction n arbitrary: w)
  case 0
  then show ?case by simp
next
  case (Suc n)
  show ?case
  proof (cases "flick (clock w)")
    case True
    with Suc.prems show ?thesis by simp
  next
    case nf: False
    obtain res w1 where h: "HasApplication r name w = (res, w1)"
      by (cases "HasApplication r name w")
    show ?thesis
    proof (cases res)
      case (Inl err)
      with Suc.prems nf h have "poll_loop n r name flick w1 = Some (e, w')"
        by simp
      from Suc.IH [OF this Suc.prems(2)] show ?thesis .
    next
      case (Inr found)
      show ?thesis
      proof (cases found)
        case False
        with Suc.prems nf h Inr
        have "poll_loop n r name flick (time_Sleep (500 * Millisecond) w1) = Some (e, w')"
          by simp
        from Suc.IH [OF this Suc.prems(2)] show ?thesis .
      next
        case True
        obtain fr w2 where f: "Application r name w1 = (fr, w2)"
          by (cases "Application r name w1")
        show ?thesis
        proof (cases fr)
          case (Inl err)
          with Suc.prems nf h Inr True f
          have "poll_loop n r name flick (time_Sleep (500 * Millisecond) w2) = Some (e, w')"
            by simp
          from Suc.IH [OF this Suc.prems(2)] show ?thesis .
        next
          case fetched: (Inr app)
          show ?thesis
          proof (cases "AllTaskRunning app")
            case False
            with Suc.prems nf h Inr True f fetched
            have "poll_loop n r name flick (time_Sleep (500 * Millisecond) w2) = Some (e, w')"
              by simp
            from Suc.IH [OF this Suc.prems(2)] show ?thesis .
          next
            case running: True
            with Suc.prems nf h Inr True f fetched have "w' = w2"
              by simp
            with nf h Inr True f fetched running show ?thesis
              by (intro exI [of _ w] exI [of _ w1] exI [of _ app]) simp
          qed
        qed
      qed
    qed
  qed
qed

lemma WaitOnApplication_success_parity:
  assumes "WaitOnApplication n deadline r name timeout w = Some None"
  shows "\<exists>wa wb w' app. HasApplication r name wa = (Inr True, wb) \<and>
     Application r name wb = (Inr app, w') \<and> AllTaskRunning app \<and>
     clock w' < clock w + (if timeout \<le> 0 then DefaultDeploymentTimeout (config r) else timeout)"
proof -
  let ?T = "if timeout \<le> 0 then DefaultDeploymentTimeout (config r) else timeout"
  let ?flick = "\<lambda>t. clock w + ?T \<le> t"
  from assms obtain e w' where p: "poll_loop n r name ?flick w = Some (e, w')"
    and c: "clock w' < clock w + ?T"
    by (auto simp: WaitOnApplication_def deadline_def Let_def split: option.splits if_splits)
  from c have "\<not> ?flick (clock w')"
    by simp
  from poll_loop_success_parity [OF p this] c show ?thesis
    by blast
qed

lemma CreateApplication_waits:
  assumes "apiPost_apps r a (clock w) = (Inr result, d)"
  shows "CreateApplication n dl r a True w =
       map_option (\<lambda>e. (Some result, e))
         (WaitOnApplication n dl r (ID a) 0
            (w\<lparr>clock := clock w + d, trace := trace w @ [Posted (ID a) (clock w)]\<rparr>))"
    and "CreateApplication n dl r a False w = Some (Some result, None)"
  using assms by (simp_all add: CreateApplication_def)

lemma UpdateApplication_waits:
  assumes "apiPut_app r a (clock w) = (Inr result, d)"
  shows "UpdateApplication n dl r a True w =
       map_option (\<lambda>e. (Some result, e))
         (WaitOnApplication n dl r (ID a) 0
            (w\<lparr>clock := clock w + d, trace := trace w @ [Put (ID a) (clock w)]\<rparr>))"
    and "UpdateApplication n dl r a False w = Some (Some result, None)"
  using assms by (simp_all add: UpdateApplication_def)

lemma short_facts:
  "ID app_short = ''/web-1''" "\<not> AllTaskRunning app_short"
  by (simp_all add: app_short_def AllTaskRunning_def)

text \<open>
  Claim C7. The success condition of the wait is instance-count parity and nothing else.
  An iteration of the poll loop that finds the application and fetches it returns nil
  exactly when AllTaskRunning holds, without reading a health check; when it does not
  hold, or the application is not listed, the loop sleeps and polls again. Whenever the
  loop returns with the switch still off, the last fetch gave a snapshot with
  AllTaskRunning. Under the bounded wait of the spec, WaitOnApplication returns nil when
  such a snapshot comes back before the timer, and only then. CreateApplication and
  UpdateApplication with waitOnRunning set return what WaitOnApplication, called with the
  application's ID and timeout 0 after the mutation, returns, whatever the bounded wait
  is; without waitOnRunning they return at once. ApplicationOK returns false for a
  snapshot with parity and a bad slot under a configured check, and such a snapshot
  exists: the wait returns nil while ApplicationOK returns (false, nil).
\<close>

theorem WaitOnApplication_parity_only:
  "(\<forall>w1 w2 app.
      \<not> flick (clock w) \<and> HasApplication r name w = (Inr True, w1) \<and>
      Application r name w1 = (Inr app, w2)
      \<longrightarrow> poll_loop (Suc n) r name flick w =
            (if AllTaskRunning app then Some (None, w2)
             else poll_loop n r name flick (time_Sleep (500 * Millisecond) w2))) \<and>
   (\<forall>w1.
      \<not> flick (clock w) \<and> HasApplication r name w = (Inr False, w1)
      \<longrightarrow> poll_loop (Suc n) r name flick w
            = poll_loop n r name flick (time_Sleep (500 * Millisecond) w1)) \<and>
   (\<forall>e w'.
      poll_loop n r name flick w = Some (e, w') \<and> \<not> flick (clock w')
      \<longrightarrow> (\<exists>wa wb app. \<not> flick (clock wa) \<and> HasApplication r name wa = (Inr True, wb) \<and>
             Application r name wb = (Inr app, w') \<and> AllTaskRunning app)) \<and>
   (\<forall>w1 w2 app.
      HasApplication r name w = (Inr True, w1) \<and> Application r name w1 = (Inr app, w2) \<and>
      AllTaskRunning app \<and>
      0 < (if timeout \<le> 0 then DefaultDeploymentTimeout (config r) else timeout) \<and>
      clock w2 < clock w + (if timeout \<le> 0 then DefaultDeploymentTimeout (config r) else timeout)
      \<longrightarrow> WaitOnApplication (Suc n) deadline r name timeout w = Some None) \<and>
   (WaitOnApplication n deadline r name timeout w = Some None
      \<longrightarrow> (\<exists>wa wb w' app. HasApplication r name wa = (Inr True, wb) \<and>
             Application r name wb = (Inr app, w') \<and> AllTaskRunning app \<and>
             clock w' < clock w +
               (if timeout \<le> 0 then DefaultDeploymentTimeout (config r) else timeout))) \<and>
   (\<forall>a result d.
      apiPost_apps r a (clock w) = (Inr result, d)
      \<longrightarrow> CreateApplication n dl r a True w =
            map_option (\<lambda>e. (Some result, e))
              (WaitOnApplication n dl r (ID a) 0
                 (w\<lparr>clock := clock w + d, trace := trace w @ [Posted (ID a) (clock w)]\<rparr>)) \<and>
          CreateApplication n dl r a False w = Some (Some result, None)) \<and>
   (\<forall>a result d.
      apiPut_app r a (clock w) = (Inr result, d)
      \<longrightarrow> UpdateApplication n dl r a True w =
            map_option (\<lambda>e. (Some result, e))
              (WaitOnApplication n dl r (ID a) 0
                 (w\<lparr>clock := clock w + d, trace := trace w @ [Put (ID a) (clock w)]\<rparr>)) \<and>
          UpdateApplication n dl r a False w = Some (Some result, None)) \<and>
   (\<forall>w1 w2 app.
      HasApplication r name w = (Inr True, w1) \<and> Application r name w1 = (Inr app, w2) \<and>
      AllTaskRunning app \<and> HasHealthChecks app \<and> \<not> all_slots_alive app
      \<longrightarrow> fst (ApplicationOK r name w) = (False, None)) \<and>
   (\<exists>c nm. WaitOnApplication 1 deadline c nm 0 w0 = Some None \<and>
      fst (ApplicationOK c nm w0) = (False, None))"
proof -
  have 1: "\<forall>w1 w2 app.
      \<not> flick (clock w) \<and> HasApplication r name w = (Inr True, w1) \<and>
      Application r name w1 = (Inr app, w2)
      \<longrightarrow> poll_loop (Suc n) r name flick w =
            (if AllTaskRunning app then Some (None, w2)
             else poll_loop n r name flick (time_Sleep (500 * Millisecond) w2))"
    using poll_loop_ready poll_loop_not_ready by auto
  have 2: "\<forall>w1.
      \<not> flick (clock w) \<and> HasApplication r name w = (Inr False, w1)
      \<longrightarrow> poll_loop (Suc n) r name flick w
            = poll_loop n r name flick (time_Sleep (500 * Millisecond) w1)"
    using poll_loop_not_listed by blast
  have 3: "\<forall>e w'.
      poll_loop n r name flick w = Some (e, w') \<and> \<not> flick (clock w')
      \<longrightarrow> (\<exists>wa wb app. \<not> flick (clock wa) \<and> HasApplication r name wa = (Inr True, wb) \<and>
             Application r name wb = (Inr app, w') \<and> AllTaskRunning app)"
    using poll_loop_success_parity by blast
  have 4: "\<forall>w1 w2 app.
      HasApplication r name w = (Inr True, w1) \<and> Application r name w1 = (Inr app, w2) \<and>
      AllTaskRunning app \<and>
      0 < (if timeout \<le> 0 then DefaultDeploymentTimeout (config r) else timeout) \<and>
      clock w2 < clock w + (if timeout \<le> 0 then DefaultDeploymentTimeout (config r) else timeout)
      \<longrightarrow> WaitOnApplication (Suc n) deadline r name timeout w = Some None"
    using WaitOnApplication_ready [OF _ _ _ refl] by blast
  have 5: "WaitOnApplication n deadline r name timeout w = Some None
      \<longrightarrow> (\<exists>wa wb w' app. HasApplication r name wa = (Inr True, wb) \<and>
             Application r name wb = (Inr app, w') \<and> AllTaskRunning app \<and>
             clock w' < clock w +
               (if timeout \<le> 0 then DefaultDeploymentTimeout (config r) else timeout))"
    using WaitOnApplication_success_parity by blast
  have 6: "\<forall>a result d.
      apiPost_apps r a (clock w) = (Inr result, d)
      \<longrightarrow> CreateApplication n dl r a True w =
            map_option (\<lambda>e. (Some result, e))
              (WaitOnApplication n dl r (ID a) 0
                 (w\<lparr>clock := clock w + d, trace := trace w @ [Posted (ID a) (clock w)]\<rparr>)) \<and>
          CreateApplication n dl r a False w = Some (Some result, None)"
    using CreateApplication_waits by blast
  have 7: "\<forall>a result d.
      apiPut_app r a (clock w) = (Inr result, d)
      \<longrightarrow> UpdateApplication n dl r a True w =
            map_option (\<lambda>e. (Some result, e))
              (WaitOnApplication n dl r (ID a) 0
                 (w\<lparr>clock := clock w + d, trace := trace w @ [Put (ID a) (clock w)]\<rparr>)) \<and>
          UpdateApplication n dl r a False w = Some (Some result, None)"
    using UpdateApplication_waits by blast
  have 8: "\<forall>w1 w2 app.
      HasApplication r name w = (Inr True, w1) \<and> Application r name w1 = (Inr app, w2) \<and>
      AllTaskRunning app \<and> HasHealthChecks app \<and> \<not> all_slots_alive app
      \<longrightarrow> fst (ApplicationOK r name w) = (False, None)"
    using ApplicationOK_checked by fastforce
  have 9: "\<exists>c nm. WaitOnApplication 1 deadline c nm 0 w0 = Some None \<and>
      fst (ApplicationOK c nm w0) = (False, None)"
    using parity_red_waits parity_red_not_ok by blast
  show ?thesis
    by (intro conjI) (rule 1 2 3 4 5 6 7 8 9)+
qed

text \<open>
  Two of two running with one task failing a check: the wait, the create and the update
  succeed and ApplicationOK says false. Three wanted and two running, or a name that is
  not listed: the loop sleeps and polls again, the wait ends with the timeout error, and
  a create or update that waits has not returned after three polls.
\<close>

theorem WaitOnApplication_parity_only_witness:
  "\<not> stop_at (50 * Millisecond) (clock w0) \<and>
   HasApplication (static_client app_parity_red) ''/web-1'' w0 = (Inr True, w_listed) \<and>
   Application (static_client app_parity_red) ''/web-1'' w_listed
     = (Inr app_parity_red, w_fetched) \<and>
   AllTaskRunning app_parity_red \<and> HasHealthChecks app_parity_red \<and>
   \<not> all_slots_alive app_parity_red \<and>
   poll_loop (Suc 0) (static_client app_parity_red) ''/web-1'' (stop_at (50 * Millisecond)) w0
     = Some (None, w_fetched) \<and>
   WaitOnApplication (Suc 0) deadline (static_client app_parity_red) ''/web-1'' 0 w0
     = Some None \<and>
   fst (ApplicationOK (static_client app_parity_red) ''/web-1'' w0) = (False, None) \<and>
   CreateApplication (Suc 0) deadline (static_client app_parity_red) app_parity_red True w0
     = Some (Some app_parity_red, None) \<and>
   UpdateApplication (Suc 0) deadline (static_client app_parity_red) app_parity_red True w0
     = Some (Some deployment_1, None) \<and>
   HasApplication (static_client app_short) ''/web-1'' w0 = (Inr True, w_listed) \<and>
   Application (static_client app_short) ''/web-1'' w_listed = (Inr app_short, w_fetched) \<and>
   \<not> AllTaskRunning app_short \<and>
   poll_loop (Suc 2) (static_client app_short) ''/web-1'' (stop_at (50 * Millisecond)) w0
     = poll_loop 2 (static_client app_short) ''/web-1'' (stop_at (50 * Millisecond))
         (time_Sleep (500 * Millisecond) w_fetched) \<and>
   WaitOnApplication 3 deadline (static_client app_short) ''/web-1'' (600 * Millisecond) w0
     = Some (Some ErrTimeoutError) \<and>
   CreateApplication 3 deadline (static_client app_short) app_short True w0 = None \<and>
   CreateApplication 3 deadline (static_client app_short) app_short False w0
     = Some (Some app_short, None) \<and>
   UpdateApplication 3 deadline (static_client app_short) app_short True w0 = None \<and>
   UpdateApplication 3 deadline (static_client app_short) app_short False w0
     = Some (Some deployment_1, None) \<and>
   HasApplication (static_client app_short) ''/web-2'' w0 = (Inr False, w_listed) \<and>
   poll_loop (Suc 2) (static_client app_short) ''/web-2'' (stop_at (50 * Millisecond)) w0
     = poll_loop 2 (static_client app_short) ''/web-2'' (stop_at (50 * Millisecond))
         (time_Sleep (500 * Millisecond) w_listed)"
proof -
  let ?red = "static_client app_parity_red"
  let ?short = "static_client app_short"
  let ?stop = "stop_at (50 * Millisecond)"
  note l = static_listed [OF parity_red_facts(1)]
  note f = static_fetched [OF parity_red_facts(1)]
  note a = parity_red_facts(2)
  have s: "\<not> ?stop (clock w0)"
    by (simp add: stop_at_def w0_def Millisecond_def)
  have t: "0 < (if (0::int) \<le> 0 then DefaultDeploymentTimeout (config ?red) else 0)"
    "clock w_fetched < clock w0 + (if (0::int) \<le> 0 then DefaultDeploymentTimeout (config ?red) else 0)"
    by (simp_all add: static_client_def w_fetched_def w0_def Millisecond_def)
  note red = WaitOnApplication_parity_only
    [of ?stop w0 ?red "''/web-1'' " 0 0 deadline]
  have 1: "poll_loop (Suc 0) ?red ''/web-1'' ?stop w0 = Some (None, w_fetched)"
    using red [THEN conjunct1, rule_format, of w_listed app_parity_red w_fetched] s l f a
    by simp
  have 2: "WaitOnApplication (Suc 0) deadline ?red ''/web-1'' 0 w0 = Some None"
    using red [THEN conjunct2, THEN conjunct2, THEN conjunct2, THEN conjunct1, rule_format,
        of w_listed app_parity_red w_fetched] l f a t
    by simp
  have 3: "fst (ApplicationOK ?red ''/web-1'' w0) = (False, None)"
    using red [THEN conjunct2, THEN conjunct2, THEN conjunct2, THEN conjunct2, THEN conjunct2,
        THEN conjunct2, THEN conjunct2, THEN conjunct1, rule_format,
        of w_listed app_parity_red w_fetched] l f a parity_red_facts(3,4)
    by simp
  let ?wp = "w0\<lparr>clock := clock w0 + 20 * Millisecond,
      trace := trace w0 @ [Posted (ID app_parity_red) (clock w0)]\<rparr>"
  let ?wu = "w0\<lparr>clock := clock w0 + 20 * Millisecond,
      trace := trace w0 @ [Put (ID app_parity_red) (clock w0)]\<rparr>"
  have p: "apiPost_apps ?red app_parity_red (clock w0) = (Inr app_parity_red, 20 * Millisecond)"
    by (simp add: static_client_def)
  have u: "apiPut_app ?red app_parity_red (clock w0) = (Inr deployment_1, 20 * Millisecond)"
    by (simp add: static_client_def)
  note red1 = WaitOnApplication_parity_only
    [of ?stop w0 ?red "''/web-1'' " "Suc 0" 0 deadline]
  have wp: "WaitOnApplication (Suc 0) deadline ?red ''/web-1'' 0 ?wp = Some None"
    using WaitOnApplication_parity_only [of ?stop ?wp ?red "''/web-1'' " 0 0 deadline,
        THEN conjunct2, THEN conjunct2, THEN conjunct2, THEN conjunct1, rule_format,
        OF conjI [OF static_listed_at [OF parity_red_facts(1)]
          conjI [OF static_fetched_at [OF parity_red_facts(1)] conjI [OF a]]]]
    by (simp add: static_client_def w0_def Millisecond_def)
  have wu: "WaitOnApplication (Suc 0) deadline ?red ''/web-1'' 0 ?wu = Some None"
    using WaitOnApplication_parity_only [of ?stop ?wu ?red "''/web-1'' " 0 0 deadline,
        THEN conjunct2, THEN conjunct2, THEN conjunct2, THEN conjunct1, rule_format,
        OF conjI [OF static_listed_at [OF parity_red_facts(1)]
          conjI [OF static_fetched_at [OF parity_red_facts(1)] conjI [OF a]]]]
    by (simp add: static_client_def w0_def Millisecond_def)
  have 4: "CreateApplication (Suc 0) deadline ?red app_parity_red True w0
      = Some (Some app_parity_red, None)"
    using red1 [THEN conjunct2, THEN conjunct2, THEN conjunct2, THEN conjunct2, THEN conjunct2,
        THEN conjunct1, rule_format, OF p] wp parity_red_facts(1)
    by simp
  have 5: "UpdateApplication (Suc 0) deadline ?red app_parity_red True w0
      = Some (Some deployment_1, None)"
    using red1 [THEN conjunct2, THEN conjunct2, THEN conjunct2, THEN conjunct2, THEN conjunct2,
        THEN conjunct2, THEN conjunct1, rule_format, OF u] wu parity_red_facts(1)
    by simp
  note l' = static_listed [OF short_facts(1)]
  note f' = static_fetched [OF short_facts(1)]
  have 6: "poll_loop (Suc 2) ?short ''/web-1'' ?stop w0
      = poll_loop 2 ?short ''/web-1'' ?stop (time_Sleep (500 * Millisecond) w_fetched)"
    using WaitOnApplication_parity_only [of ?stop w0 ?short "''/web-1'' " 2 0 deadline,
        THEN conjunct1, rule_format, of w_listed app_short w_fetched] s l' f' short_facts(2)
    by simp
  have n: "HasApplication ?short ''/web-2'' w0 = (Inr False, w_listed)"
    by (simp add: HasApplication_def ListApplications_def Applications_def static_client_def
        app_short_def w0_def w_listed_def)
  have 7: "poll_loop (Suc 2) ?short ''/web-2'' ?stop w0
      = poll_loop 2 ?short ''/web-2'' ?stop (time_Sleep (500 * Millisecond) w_listed)"
    using WaitOnApplication_parity_only [of ?stop w0 ?short "''/web-2'' " 2 0 deadline,
        THEN conjunct2, THEN conjunct1, rule_format, of w_listed] s n
    by simp
  have 8: "WaitOnApplication 3 deadline ?short ''/web-1'' (600 * Millisecond) w0
      = Some (Some ErrTimeoutError)"
    by (simp add: WaitOnApplication_def deadline_def eval_nat_numeral HasApplication_def
        ListApplications_def Applications_def Application_def static_client_def
        app_short_def AllTaskRunning_def time_Sleep_def w0_def Millisecond_def)
  have 9: "CreateApplication 3 deadline ?short app_short True w0 = None"
    "CreateApplication 3 deadline ?short app_short False w0 = Some (Some app_short, None)"
    "UpdateApplication 3 deadline ?short app_short True w0 = None"
    "UpdateApplication 3 deadline ?short app_short False w0 = Some (Some deployment_1, None)"
    by (simp_all add: CreateApplication_def UpdateApplication_def WaitOnApplication_def
        deadline_def eval_nat_numeral HasApplication_def
        ListApplications_def Applications_def Application_def static_client_def
        app_short_def AllTaskRunning_def time_Sleep_def w0_def Millisecond_def)
  from s l f a parity_red_facts(3,4) 1 2 3 4 5 l' f' short_facts(2) 6 8 9 n 7
  show ?thesis
    by (intro conjI)
qed

text \<open>
  Claim C8. A call of WaitOnApplication with a timeout that is zero or negative hands the
  configured default deployment timeout to the bounded wait, whatever the bounded wait
  is: the call is the call with the default timeout, and the caller's non-positive value
  never reaches the bounded wait.
\<close>

theorem WaitOnApplication_default_timeout:
  assumes "timeout \<le> 0"
  shows "WaitOnApplication fuel dl r name timeout w
       = WaitOnApplication fuel dl r name (DefaultDeploymentTimeout (config r)) w \<and>
     WaitOnApplication fuel dl r name timeout w
       = dl (DefaultDeploymentTimeout (config r)) (\<lambda>stop_channel. poll_loop fuel r name stop_channel) w"
  using assms by (simp add: WaitOnApplication_def Let_def)

text \<open>
  Timeouts 0 and -5 against a default of 300 s.
\<close>

theorem WaitOnApplication_default_timeout_witness:
  "(0::int) \<le> 0 \<and> (- 5::int) \<le> 0 \<and>
   DefaultDeploymentTimeout (config (static_client app_green)) = 300000 * Millisecond \<and>
   WaitOnApplication 2 deadline (static_client app_green) ''/web-1'' 0 w0
     = WaitOnApplication 2 deadline (static_client app_green) ''/web-1''
         (300000 * Millisecond) w0 \<and>
   WaitOnApplication 2 deadline (static_client app_green) ''/web-1'' (- 5) w0
     = WaitOnApplication 2 deadline (static_client app_green) ''/web-1''
         (300000 * Millisecond) w0"
proof -
  have z: "(0::int) \<le> 0" and m: "(- 5::int) \<le> 0"
    by simp_all
  have d: "DefaultDeploymentTimeout (config (static_client app_green)) = 300000 * Millisecond"
    by (simp add: static_client_def)
  from WaitOnApplication_default_timeout [OF z, of 2 deadline "static_client app_green" "''/web-1'' " w0]
    WaitOnApplication_default_timeout [OF m, of 2 deadline "static_client app_green" "''/web-1'' " w0]
    z m d
  show ?thesis
    by simp
qed

text \<open>
  Claim C9. Inside the poll loop every error of the existence check and of the fetch is
  dropped and the loop goes on to its next iteration; the closure never returns an error.
  Under the bounded wait of the spec the call therefore returns nil (success or stop) or
  the timeout error, or has not returned yet.
\<close>

theorem WaitOnApplication_swallows_errors:
  "(\<forall>e w'. poll_loop n r name flick w = Some (e, w') \<longrightarrow> e = None) \<and>
   (\<forall>err w1. \<not> flick (clock w) \<and> HasApplication r name w = (Inl err, w1)
      \<longrightarrow> poll_loop (Suc n) r name flick w = poll_loop n r name flick w1) \<and>
   (\<forall>err w1 w2. \<not> flick (clock w) \<and> HasApplication r name w = (Inr True, w1) \<and>
        Application r name w1 = (Inl err, w2)
      \<longrightarrow> poll_loop (Suc n) r name flick w
          = poll_loop n r name flick (time_Sleep (500 * Millisecond) w2)) \<and>
   WaitOnApplication n deadline r name timeout w \<in> {None, Some None, Some (Some ErrTimeoutError)}"
proof -
  have 1: "\<forall>e w'. poll_loop n r name flick w = Some (e, w') \<longrightarrow> e = None"
    using poll_loop_nil_error by blast
  have 2: "\<forall>err w1. \<not> flick (clock w) \<and> HasApplication r name w = (Inl err, w1)
      \<longrightarrow> poll_loop (Suc n) r name flick w = poll_loop n r name flick w1"
    by simp
  have 3: "\<forall>err w1 w2. \<not> flick (clock w) \<and> HasApplication r name w = (Inr True, w1) \<and>
        Application r name w1 = (Inl err, w2)
      \<longrightarrow> poll_loop (Suc n) r name flick w
          = poll_loop n r name flick (time_Sleep (500 * Millisecond) w2)"
    by simp
  have 4: "WaitOnApplication n deadline r name timeout w
      \<in> {None, Some None, Some (Some ErrTimeoutError)}"
    unfolding WaitOnApplication_def Let_def
    by (rule deadline_outcomes) (rule poll_loop_nil_error)
  from 1 2 3 4 show ?thesis by blast
qed

text \<open>
  A catalog whose listing fails, and one whose fetch fails: the loop goes on, and the wait
  on the failing catalog ends with the timeout error.
\<close>

theorem WaitOnApplication_swallows_errors_witness:
  "\<not> stop_at (50 * Millisecond) (clock w0) \<and>
   HasApplication failing_client ''/web-1'' w0 = (Inl (TransportError ''503''), w_listed) \<and>
   poll_loop (Suc 3) failing_client ''/web-1'' (stop_at (50 * Millisecond)) w0
     = poll_loop 3 failing_client ''/web-1'' (stop_at (50 * Millisecond)) w_listed \<and>
   HasApplication (fetch_failing_client app_green) ''/web-1'' w0 = (Inr True, w_listed) \<and>
   Application (fetch_failing_client app_green) ''/web-1'' w_listed
     = (Inl (TransportError ''503''), w_fetched) \<and>
   poll_loop (Suc 3) (fetch_failing_client app_green) ''/web-1'' (stop_at (50 * Millisecond)) w0
     = poll_loop 3 (fetch_failing_client app_green) ''/web-1'' (stop_at (50 * Millisecond))
         (time_Sleep (500 * Millisecond) w_fetched) \<and>
   WaitOnApplication 4 deadline failing_client ''/web-1'' (50 * Millisecond) w0
     = Some (Some ErrTimeoutError)"
proof -
  have s: "\<not> stop_at (50 * Millisecond) (clock w0)"
    by (simp add: stop_at_def w0_def Millisecond_def)
  have l: "HasApplication failing_client ''/web-1'' w0
      = (Inl (TransportError ''503''), w_listed)"
    by (simp add: HasApplication_def ListApplications_def Applications_def failing_client_def
        w0_def w_listed_def)
  have l': "HasApplication (fetch_failing_client app_green) ''/web-1'' w0 = (Inr True, w_listed)"
    by (simp add: HasApplication_def ListApplications_def Applications_def
        fetch_failing_client_def static_client_def app_green_def w0_def w_listed_def)
  have f': "Application (fetch_failing_client app_green) ''/web-1'' w_listed
      = (Inl (TransportError ''503''), w_fetched)"
    by (simp add: Application_def fetch_failing_client_def static_client_def
        w_listed_def w_fetched_def)
  note t = WaitOnApplication_swallows_errors
    [of 3 failing_client "''/web-1'' " "stop_at (50 * Millisecond)" w0]
  note t' = WaitOnApplication_swallows_errors
    [of 3 "fetch_failing_client app_green" "''/web-1'' " "stop_at (50 * Millisecond)" w0]
  have 1: "poll_loop (Suc 3) failing_client ''/web-1'' (stop_at (50 * Millisecond)) w0
      = poll_loop 3 failing_client ''/web-1'' (stop_at (50 * Millisecond)) w_listed"
    using t s l by blast
  have 2: "poll_loop (Suc 3) (fetch_failing_client app_green) ''/web-1''
        (stop_at (50 * Millisecond)) w0
      = poll_loop 3 (fetch_failing_client app_green) ''/web-1'' (stop_at (50 * Millisecond))
          (time_Sleep (500 * Millisecond) w_fetched)"
    using t' s l' f' by blast
  have 3: "WaitOnApplication 4 deadline failing_client ''/web-1'' (50 * Millisecond) w0
      = Some (Some ErrTimeoutError)"
    by (simp add: WaitOnApplication_def deadline_def eval_nat_numeral HasApplication_def
        ListApplications_def Applications_def failing_client_def w0_def Millisecond_def)
  from s l 1 l' f' 2 3 show ?thesis
    by blast
qed

text \<open>
  Claim C10 at a failing input. Against a catalog whose listing fails after 20 ms, the
  loop sends its three listing requests at 0, 20 and 40 ms with no sleep between them: the
  \<open>continue\<close> of the failed existence check skips \<open>time.Sleep\<close>. The sibling path, a failed
  fetch after a successful listing, does sleep 500 ms.
\<close>

theorem poll_loop_existence_error_no_sleep:
  "poll_loop 4 failing_client ''/web-1'' (stop_at (50 * Millisecond)) w0 =
     Some (None, \<lparr>clock = 60 * Millisecond,
        trace = [Listed 0, Listed (20 * Millisecond), Listed (40 * Millisecond)]\<rparr>) \<and>
   poll_loop 4 (fetch_failing_client app_green) ''/web-1'' (stop_at (50 * Millisecond)) w0 =
     Some (None, \<lparr>clock = 540 * Millisecond,
        trace = [Listed 0, Fetched ''/web-1'' (20 * Millisecond),
          Slept (40 * Millisecond) (500 * Millisecond)]\<rparr>)"
  by (simp add: eval_nat_numeral HasApplication_def ListApplications_def Applications_def
      Application_def failing_client_def fetch_failing_client_def static_client_def
      app_green_def stop_at_def w0_def time_Sleep_def Millisecond_def)

end
